theory Spec2Isabelle
  imports Complex_Main "HOL-Library.Sublist" "HOL-Library.AList" "HOL-Library.Word"
begin

section \<open>Python strings\<close>

text \<open>
  This theory embeds \<open>src/pipx/commands/run.py\<close>. Every function keeps its name, without
  the leading underscore of the private ones; the parameters \<open>python\<close> and \<open>verbose\<close>
  are written \<open>py\<close> and \<open>verb\<close>.

  A Python \<open>str\<close> is modelled as a HOL \<open>string\<close>: a list of characters, each a code
  point below 256. The string methods that \<open>run.py\<close> calls are written out for these
  code points as CPython defines them.
\<close>

text \<open>\<open>s.startswith(prefix)\<close>.\<close>

definition startswith :: "string \<Rightarrow> string \<Rightarrow> bool" where
  "startswith s pre = (take (length pre) s = pre)"

text \<open>\<open>s.endswith(suffix)\<close>.\<close>

definition endswith :: "string \<Rightarrow> string \<Rightarrow> bool" where
  "endswith s suf = (length suf \<le> length s \<and> drop (length s - length suf) s = suf)"

text \<open>
  \<open>str.isspace\<close> on one character: the code points below 256 that Unicode classes as
  whitespace (tab, line feed, vertical tab, form feed, carriage return, the four
  separators 0x1C to 0x1F, space, next line 0x85 and no-break space 0xA0).
\<close>

definition isspace :: "char \<Rightarrow> bool" where
  "isspace c = (c \<in> set [CHR 0x09, CHR 0x0A, CHR 0x0B, CHR 0x0C, CHR 0x0D,
                          CHR 0x1C, CHR 0x1D, CHR 0x1E, CHR 0x1F, CHR 0x20,
                          CHR 0x85, CHR 0xA0])"

text \<open>\<open>s.strip()\<close>: leading and trailing whitespace removed.\<close>

definition lstrip :: "string \<Rightarrow> string" where
  "lstrip s = dropWhile isspace s"

definition rstrip :: "string \<Rightarrow> string" where
  "rstrip s = rev (dropWhile isspace (rev s))"

definition strip :: "string \<Rightarrow> string" where
  "strip s = rstrip (lstrip s)"

text \<open>
  The line boundaries of \<open>str.splitlines\<close> below code point 256: line feed, vertical
  tab, form feed, carriage return, the separators 0x1C to 0x1E and next line 0x85.
\<close>

definition is_linebreak :: "char \<Rightarrow> bool" where
  "is_linebreak c = (c \<in> set [CHR 0x0A, CHR 0x0B, CHR 0x0C, CHR 0x0D,
                               CHR 0x1C, CHR 0x1D, CHR 0x1E, CHR 0x85])"

text \<open>
  \<open>s.splitlines()\<close>: the lines without their line breaks; a carriage return followed
  by a line feed is one break; no empty last line is added after a final break.
  \<open>cur\<close> is the line read so far, reversed.
\<close>

fun splitlines_from :: "string \<Rightarrow> string \<Rightarrow> string list" where
  "splitlines_from cur [] = (if cur = [] then [] else [rev cur])"
| "splitlines_from cur [c] = (if is_linebreak c then [rev cur] else [rev (c # cur)])"
| "splitlines_from cur (c # d # s) =
     (if c = CHR 0x0D \<and> d = CHR 0x0A then rev cur # splitlines_from [] s
      else if is_linebreak c then rev cur # splitlines_from [] (d # s)
      else splitlines_from (c # cur) (d # s))"

definition splitlines :: "string \<Rightarrow> string list" where
  "splitlines s = splitlines_from [] s"

text \<open>
  \<open>s.split()\<close> with no argument: the maximal runs of non-whitespace characters.
  \<open>cur\<close> is the word read so far, reversed.
\<close>

fun split_from :: "string \<Rightarrow> string \<Rightarrow> string list" where
  "split_from cur [] = (if cur = [] then [] else [rev cur])"
| "split_from cur (c # s) =
     (if isspace c then (if cur = [] then split_from [] s else rev cur # split_from [] s)
      else split_from (c # cur) s)"

definition split :: "string \<Rightarrow> string list" where
  "split s = split_from [] s"

text \<open>\<open>sep.join(xs)\<close>.\<close>

fun join :: "string \<Rightarrow> string list \<Rightarrow> string" where
  "join sep [] = []"
| "join sep [x] = x"
| "join sep (x # y # xs) = x @ sep @ join sep (y # xs)"

section \<open>Errors\<close>

text \<open>
  Every exception that \<open>run.py\<close> raises or lets through is a value.
  \<open>PipxError message wrap_message\<close> carries the two arguments its constructor is
  given: the message text and the \<open>wrap_message\<close> flag (\<open>True\<close> when the call does
  not pass it). \<open>ExternalError\<close> stands for a failure raised inside an external
  collaborator (environment provisioning, process launch).
\<close>

datatype error =
    PipxError string bool
  | FileNotFoundError
  | KeyError
  | TypeError
  | IndexError
  | InvalidVersion
  | ExternalError string

section \<open>Requirement extraction\<close>

text \<open>
  \<open>packaging.requirements.Requirement\<close> is an external parser. A parsed requirement
  has a name and a normalised text (\<open>str(req)\<close>); a line that does not parse raises
  \<open>InvalidRequirement\<close> with the parser's complaint. The parser is a parameter
  of type \<open>string \<Rightarrow> string + requirement\<close>, \<open>Inl\<close> the complaint.
\<close>

record requirement =
  req_name :: string
  req_str :: string

type_synonym requirement_parser = "string \<Rightarrow> string + requirement"

text \<open>
  The first loop of \<open>_get_requirements_from_script\<close>: it reads lines until a line
  that starts with \<open>#\<close> and whose text after the \<open>#\<close>, stripped, is
  \<open>Requirements:\<close>. It yields the lines left in the iterator after that line, or
  \<open>None\<close> when the iterator runs out (the \<open>else\<close> of the \<open>for\<close>).
\<close>

fun find_requirements_header :: "string list \<Rightarrow> string list option" where
  "find_requirements_header [] = None"
| "find_requirements_header (line # lines) =
     (if \<not> startswith line ''#'' then find_requirements_header lines
      else if strip (drop 1 line) = ''Requirements:'' then Some lines
      else find_requirements_header lines)"

text \<open>
  The second loop: it reads the lines that follow the header until a line that does
  not start with \<open>#\<close> or whose stripped content is empty. Each line's content must
  parse; the first that does not raises \<open>PipxError\<close>. The normalised text of each
  parsed requirement is appended to \<open>requirements\<close>.
\<close>

fun read_requirements ::
  "requirement_parser \<Rightarrow> string list \<Rightarrow> string list \<Rightarrow> error + string list" where
  "read_requirements parser [] requirements = Inr requirements"
| "read_requirements parser (line # lines) requirements =
     (if \<not> startswith line ''#'' then Inr requirements
      else let line_content = strip (drop 1 line) in
        if line_content = [] then Inr requirements
        else (case parser line_content of
                Inl e \<Rightarrow> Inl (PipxError (''Invalid requirement '' @ line_content @ '': '' @ e) True)
              | Inr req \<Rightarrow> read_requirements parser lines (requirements @ [req_str req])))"

text \<open>The two loops over the lines of the script, sharing one iterator.\<close>

definition requirements_from_lines ::
  "requirement_parser \<Rightarrow> string list \<Rightarrow> error + string list option" where
  "requirements_from_lines parser lines =
     (case find_requirements_header lines of
        None \<Rightarrow> Inr None
      | Some rest \<Rightarrow>
          (case read_requirements parser rest [] of
             Inl e \<Rightarrow> Inl e
           | Inr requirements \<Rightarrow> Inr (Some requirements)))"

text \<open>\<open>_get_requirements_from_script(content)\<close>.\<close>

definition get_requirements_from_script ::
  "requirement_parser \<Rightarrow> string \<Rightarrow> error + string list option" where
  "get_requirements_from_script parser content =
     requirements_from_lines parser (splitlines content)"

section \<open>Paths, the file system and the state of one invocation\<close>

text \<open>
  A \<open>pathlib.Path\<close> is the list of its components; \<open>path / name\<close> appends one
  component (every right operand in \<open>run.py\<close> is a relative name).
\<close>

type_synonym path = "string list"

definition joinpath :: "path \<Rightarrow> string \<Rightarrow> path" where
  "joinpath p name = p @ [name]"

text \<open>
  The state an invocation reads and changes. \<open>files\<close> lists the paths that exist
  (files and directories alike), each with its \<open>st_ctime\<close> in seconds. \<open>now\<close> is the
  time of the system clock in seconds, fractions included, taken as fixed for the
  invocation. \<open>stdout\<close> collects what \<open>print\<close> writes and \<open>subprocesses\<close> the
  argument lists given to \<open>subprocess.run\<close>. Times are exact rationals: the rounding
  of Python's floats is not modelled. Calls to \<open>logger\<close> have no effect on this state
  and are left out.
\<close>

record world =
  files :: "(path \<times> rat) list"
  now :: rat
  stdout :: "string list"
  subprocesses :: "string list list"

text \<open>
  \<open>time.mktime(datetime.datetime.now().timetuple())\<close>: a time tuple holds whole
  seconds, so the microseconds of \<open>datetime.now()\<close> are dropped and the value is the
  clock's time rounded down to a whole second.
\<close>

definition mktime_now :: "world \<Rightarrow> rat" where
  "mktime_now w = of_int \<lfloor>now w\<rfloor>"

text \<open>\<open>path.exists()\<close>.\<close>

definition path_exists :: "world \<Rightarrow> path \<Rightarrow> bool" where
  "path_exists w p = (map_of (files w) p \<noteq> None)"

text \<open>\<open>path.stat().st_ctime\<close>: raises \<open>FileNotFoundError\<close> when the path does not exist.\<close>

definition st_ctime :: "world \<Rightarrow> path \<Rightarrow> error + rat" where
  "st_ctime w p = (case map_of (files w) p of None \<Rightarrow> Inl FileNotFoundError | Some t \<Rightarrow> Inr t)"

text \<open>
  \<open>path.touch()\<close>, and \<open>open(path, "w")\<close> closed at once: the file exists afterwards
  with its status change time set to now; \<open>FileNotFoundError\<close> when the parent
  directory does not exist.
\<close>

definition touch :: "path \<Rightarrow> world \<Rightarrow> error + world" where
  "touch p w =
     (if p \<noteq> [] \<and> path_exists w (butlast p)
      then Inr (w\<lparr>files := AList.update p (now w) (files w)\<rparr>)
      else Inl FileNotFoundError)"

definition open_w :: "path \<Rightarrow> world \<Rightarrow> error + world" where
  "open_w p w = touch p w"

text \<open>\<open>path.iterdir()\<close>: the entries directly inside a directory.\<close>

definition iterdir :: "world \<Rightarrow> path \<Rightarrow> error + path list" where
  "iterdir w d =
     (if path_exists w d
      then Inr (remdups (filter (\<lambda>p. p \<noteq> [] \<and> butlast p = d) (map fst (files w))))
      else Inl FileNotFoundError)"

text \<open>
  Modelled from the spec: \<open>pipx.util.rmdir\<close> is not among the sources. The spec says
  of reaping that "the entry's entire directory subtree is deleted from disk": every
  path at or below \<open>d\<close> is removed.
\<close>

definition rmdir :: "path \<Rightarrow> world \<Rightarrow> world" where
  "rmdir d w = w\<lparr>files := filter (\<lambda>(p, t). \<not> prefix d p) (files w)\<rparr>"

text \<open>\<open>print(line)\<close> and \<open>subprocess.run(cmd)\<close>.\<close>

definition print :: "string \<Rightarrow> world \<Rightarrow> world" where
  "print line w = w\<lparr>stdout := stdout w @ [line]\<rparr>"

definition subprocess_run :: "string list \<Rightarrow> world \<Rightarrow> world" where
  "subprocess_run cmd w = w\<lparr>subprocesses := subprocesses w @ [cmd]\<rparr>"

section \<open>External collaborators\<close>

text \<open>
  \<open>PackageInfo\<close> of \<open>pipx.pipx_metadata_file\<close>, with the fields \<open>run.py\<close> reads, and the
  \<open>Venv\<close> object of \<open>pipx.venv\<close>: its root directory, the constructor's \<open>python\<close> and
  \<open>verbose\<close> arguments, \<open>pipx_metadata.main_package\<close> and the \<open>package_metadata\<close>
  dictionary.
\<close>

record package_info =
  package :: "string option"
  apps :: "string list"
  package_version :: string

record venv =
  root :: path
  python :: "string option"
  verbose :: bool
  main_package :: package_info
  package_metadata :: "(string \<times> package_info) list"

text \<open>
  What a run ends in. The three launchers of \<open>pipx.util\<close> and \<open>pipx.venv\<close> replace the
  process and never return: \<open>exec_app(cmd)\<close>, \<open>venv.run_app(app, filename, app_args)\<close>
  (recorded with the root of its environment) and
  \<open>run_pypackage_bin(bin_path, args)\<close>.
\<close>

datatype outcome =
    Exec_app "string list"
  | Run_app path string string "string list"
  | Run_pypackage_bin path "string list"

text \<open>
  Everything \<open>run.py\<close> imports and does not define is a parameter:
  \<^item> the constants of \<open>pipx.constants\<close>;
  \<^item> \<open>Requirement\<close> and \<open>version.parse\<close> of \<open>packaging\<close> (\<open>version_parse\<close> is \<open>None\<close> where
    \<open>version.parse\<close> raises \<open>InvalidVersion\<close>; versions are ordered by the type's \<open><\<close>);
  \<^item> \<open>sha256_hexdigest\<close>, the hexadecimal SHA-256 digest of a byte sequence; \<open>repr\<close>;
  \<^item> the network: \<open>requests_get url\<close> is the text of the response, or \<open>Inl\<close> the
    text of the \<open>RequestException\<close> that \<open>requests.get\<close> or \<open>raise_for_status\<close>
    raises; \<open>select_one_text html\<close> is the text of the first element of the page with
    class \<open>package-header__name\<close>, if there is one; \<open>urlopen_read url\<close> is the decoded
    body, or \<open>Inl\<close> the text of the exception; \<open>urlparse_scheme\<close>;
  \<^item> the file system beyond existence: \<open>Path\<close> turns the text of a path into a
    path, \<open>read_text\<close> reads a file, \<open>get_pypackage_bin_path\<close>;
  \<^item> the \<open>Venv\<close> class: what its constructor loads from a directory
    (\<open>read_main_package\<close>, \<open>read_package_metadata\<close>), \<open>bin_path\<close>, \<open>python_path\<close>,
    \<open>has_app\<close>, and the provisioning steps \<open>create_venv\<close>, \<open>install_package\<close> (which
    returns the metadata of the main package it records in the object) and
    \<open>install_unmanaged_packages\<close>; \<open>package_name_from_spec\<close>.
\<close>

record 'v collaborators =
  PIPX_LOCAL_VENVS :: path
  PIPX_VENV_CACHEDIR :: path
  TEMP_VENV_EXPIRATION_THRESHOLD_DAYS :: int
  WINDOWS :: bool
  Requirement :: requirement_parser
  version_parse :: "string \<Rightarrow> 'v option"
  sha256_hexdigest :: "8 word list \<Rightarrow> string"
  repr :: "string \<Rightarrow> string"
  requests_get :: "string \<Rightarrow> string + string"
  select_one_text :: "string \<Rightarrow> string option"
  urlopen_read :: "string \<Rightarrow> string + string"
  urlparse_scheme :: "string \<Rightarrow> string"
  Path :: "string \<Rightarrow> path"
  str_of_path :: "path \<Rightarrow> string"
  read_text :: "world \<Rightarrow> path \<Rightarrow> error + string"
  get_pypackage_bin_path :: "string \<Rightarrow> path"
  read_main_package :: "world \<Rightarrow> path \<Rightarrow> package_info"
  read_package_metadata :: "world \<Rightarrow> path \<Rightarrow> (string \<times> package_info) list"
  bin_path :: "venv \<Rightarrow> path"
  python_path :: "venv \<Rightarrow> string"
  has_app :: "venv \<Rightarrow> world \<Rightarrow> string \<Rightarrow> string \<Rightarrow> bool"
  create_venv :: "venv \<Rightarrow> string list \<Rightarrow> string list \<Rightarrow> world \<Rightarrow> error + world"
  install_package ::
    "venv \<Rightarrow> string \<Rightarrow> string \<Rightarrow> string list \<Rightarrow> world \<Rightarrow> error + package_info \<times> world"
  install_unmanaged_packages ::
    "venv \<Rightarrow> string list \<Rightarrow> string list \<Rightarrow> world \<Rightarrow> error + world"
  package_name_from_spec ::
    "string \<Rightarrow> string \<Rightarrow> string list \<Rightarrow> bool \<Rightarrow> world \<Rightarrow> error + string"

text \<open>
  \<open>Venv(path, python=python, verbose=verbose)\<close>: the constructor loads the metadata
  stored in the directory. \<open>Venv(path)\<close> is \<open>Venv c w path None False\<close>.
\<close>

definition Venv :: "'v collaborators \<Rightarrow> world \<Rightarrow> path \<Rightarrow> string option \<Rightarrow> bool \<Rightarrow> venv" where
  "Venv c w path py verb =
     \<lparr>root = path, python = py, verbose = verb,
      main_package = read_main_package c w path,
      package_metadata = read_package_metadata c w path\<rparr>"

section \<open>The fingerprint\<close>

text \<open>
  \<open>s.encode()\<close>: UTF-8. A code point below 128 is one byte, one from 128 to 255 is
  two bytes.
\<close>

definition utf8 :: "char \<Rightarrow> 8 word list" where
  "utf8 ch =
     (let n = (of_char ch :: nat) in
      if n < 128 then [of_nat n] else [of_nat (192 + n div 64), of_nat (128 + n mod 64)])"

definition encode :: "string \<Rightarrow> 8 word list" where
  "encode s = concat (map utf8 s)"

text \<open>
  A \<open>hashlib\<close> hash object is the bytes fed to it so far: \<open>hashlib.sha256()\<close> starts
  empty, \<open>m.update(data)\<close> appends, and \<open>m.hexdigest()\<close> is the digest of them all.
\<close>

definition sha256 :: "8 word list" where
  "sha256 = []"

definition update :: "8 word list \<Rightarrow> 8 word list \<Rightarrow> 8 word list" where
  "update m data = m @ data"

definition hexdigest :: "'v collaborators \<Rightarrow> 8 word list \<Rightarrow> string" where
  "hexdigest c m = sha256_hexdigest c m"

text \<open>\<open>_get_temporary_venv_path(requirements, python, pip_args, venv_args)\<close>.\<close>

definition get_temporary_venv_path ::
  "'v collaborators \<Rightarrow> string list \<Rightarrow> string \<Rightarrow> string list \<Rightarrow> string list \<Rightarrow> path" where
  "get_temporary_venv_path c requirements py pip_args venv_args =
     (let m0 = sha256;
          m1 = update m0 (encode (join [] requirements));
          m2 = update m1 (encode py);
          m3 = update m2 (encode (join [] pip_args));
          m4 = update m3 (encode (join [] venv_args));
          venv_folder_name = take 15 (hexdigest c m4)
      in joinpath (PIPX_VENV_CACHEDIR c) venv_folder_name)"

section \<open>The life cycle of cached environments\<close>

definition VENV_EXPIRED_FILENAME :: string where
  "VENV_EXPIRED_FILENAME = ''pipx_expired_venv''"

text \<open>\<open>_is_temporary_venv_expired(venv_dir)\<close>.\<close>

definition is_temporary_venv_expired :: "'v collaborators \<Rightarrow> world \<Rightarrow> path \<Rightarrow> error + bool" where
  "is_temporary_venv_expired c w venv_dir =
     (case st_ctime w venv_dir of
        Inl e \<Rightarrow> Inl e
      | Inr created_time_sec \<Rightarrow>
          (let current_time_sec = mktime_now w;
               age = current_time_sec - created_time_sec;
               expiration_threshold_sec =
                 60 * 60 * 24 * of_int (TEMP_VENV_EXPIRATION_THRESHOLD_DAYS c)
           in Inr (age > expiration_threshold_sec
                   \<or> path_exists w (joinpath venv_dir VENV_EXPIRED_FILENAME))))"

text \<open>
  \<open>_remove_all_expired_venvs()\<close>: the loop over the entries of the cache directory,
  each tested in the state the removals before it have left.
\<close>

fun remove_expired_venvs :: "'v collaborators \<Rightarrow> path list \<Rightarrow> world \<Rightarrow> error + world" where
  "remove_expired_venvs c [] w = Inr w"
| "remove_expired_venvs c (venv_dir # dirs) w =
     (case is_temporary_venv_expired c w venv_dir of
        Inl e \<Rightarrow> Inl e
      | Inr expired \<Rightarrow>
          if expired then remove_expired_venvs c dirs (rmdir venv_dir w)
          else remove_expired_venvs c dirs w)"

definition remove_all_expired_venvs :: "'v collaborators \<Rightarrow> world \<Rightarrow> error + world" where
  "remove_all_expired_venvs c w =
     (case iterdir w (PIPX_VENV_CACHEDIR c) of
        Inl e \<Rightarrow> Inl e
      | Inr dirs \<Rightarrow> remove_expired_venvs c dirs w)"

text \<open>\<open>_prepare_venv_cache(venv, bin_path, use_cache)\<close>.\<close>

definition prepare_venv_cache ::
  "'v collaborators \<Rightarrow> venv \<Rightarrow> path option \<Rightarrow> bool \<Rightarrow> world \<Rightarrow> error + world" where
  "prepare_venv_cache c v bin_path_opt use_cache w =
     (let venv_dir = root v;
          w1 = (if \<not> use_cache \<and> (case bin_path_opt of None \<Rightarrow> True | Some b \<Rightarrow> path_exists w b)
                then rmdir venv_dir w else w)
      in remove_all_expired_venvs c w1)"

section \<open>The advisory version check\<close>

text \<open>
  \<open>_get_latest_version(package_name)\<close>. The function prints a diagnostic on every
  path and has no \<open>return\<close> statement other than \<open>return None\<close>, so its value is
  \<open>None\<close> whenever it returns. \<open>version_text.split()[-1]\<close> raises \<open>IndexError\<close> when the
  text of the element is blank.
\<close>

definition get_latest_version ::
  "'v collaborators \<Rightarrow> string \<Rightarrow> world \<Rightarrow> error + string option \<times> world" where
  "get_latest_version c package_name w =
     (let pypi_url = ''https://pypi.org/project/'' @ package_name @ ''/'' in
      case requests_get c pypi_url of
        Inl e \<Rightarrow> Inr (None, print (''Error during request: '' @ e) w)
      | Inr html_content \<Rightarrow>
          if html_content \<noteq> [] then
            (case select_one_text c html_content of
               Some element_text \<Rightarrow>
                 (let version_text = strip element_text;
                      parts = split version_text
                  in if parts = [] then Inl IndexError
                     else (let latest_version = last parts
                           in Inr (None,
                                print (''The latest version of '' @ package_name @ '' is: ''
                                       @ latest_version) w)))
             | None \<Rightarrow>
                 Inr (None,
                   print (''Unable to find version information on the PyPI page for ''
                          @ package_name @ ''.'') w))
          else Inr (None, print (''Unable to retrieve HTML content for '' @ package_name @ ''.'') w))"

text \<open>\<open>_is_version_check_expired(package_venv)\<close>.\<close>

definition is_version_check_expired :: "world \<Rightarrow> path \<Rightarrow> error + bool" where
  "is_version_check_expired w package_venv =
     (let version_check_file = joinpath package_venv ''pipx_version_check'' in
      case st_ctime w version_check_file of
        Inl e \<Rightarrow> Inl e
      | Inr created_time_sec \<Rightarrow>
          (let current_time_sec = mktime_now w;
               age = current_time_sec - created_time_sec;
               expiration_threshold_sec = 60 * 60 * 24
           in Inr (age > expiration_threshold_sec)))"

text \<open>
  \<open>version.parse(v)\<close> of \<open>packaging\<close>, applied to a value that is a string or \<open>None\<close>:
  \<open>None\<close> is not a string and raises \<open>TypeError\<close>; a string that is not a version
  raises \<open>InvalidVersion\<close>.
\<close>

definition parse :: "'v collaborators \<Rightarrow> string option \<Rightarrow> error + 'v" where
  "parse c v =
     (case v of
        None \<Rightarrow> Inl TypeError
      | Some s \<Rightarrow> (case version_parse c s of None \<Rightarrow> Inl InvalidVersion | Some x \<Rightarrow> Inr x))"

text \<open>
  The first statement of \<open>check_version(app)\<close>:
  \<open>package_venv = PIPX_LOCAL_VENVS / "{app}"\<close>. The string is not an f-string, so the
  component is the five characters \<open>{app}\<close> whatever \<open>app\<close> is.
\<close>

definition package_venv :: "'v collaborators \<Rightarrow> string \<Rightarrow> path" where
  "package_venv c app = joinpath (PIPX_LOCAL_VENVS c) ''{app}''"

text \<open>
  \<open>check_version(app)\<close>. The condition is
  \<open>exists() or _is_version_check_expired(...)\<close>: the second operand is evaluated only
  when the marker does not exist. In the comparison the left operand
  \<open>version.parse(latest_version)\<close> is evaluated first.
\<close>

definition check_version :: "('v::linorder) collaborators \<Rightarrow> string \<Rightarrow> world \<Rightarrow> error + world" where
  "check_version c app w =
     (let venv_dir = package_venv c app in
      case (if path_exists w (joinpath venv_dir ''pipx_version_check'') then Inr True
            else is_version_check_expired w venv_dir) of
        Inl e \<Rightarrow> Inl e
      | Inr checking \<Rightarrow>
          if \<not> checking then Inr w
          else
            (case open_w (joinpath venv_dir ''pipx_version_check'') w of
               Inl e \<Rightarrow> Inl e
             | Inr w1 \<Rightarrow>
                 (case get_latest_version c app w1 of
                    Inl e \<Rightarrow> Inl e
                  | Inr (latest_version, w2) \<Rightarrow>
                      (let v = Venv c w2 venv_dir None False in
                       case map_of (package_metadata v) app of
                         None \<Rightarrow> Inl KeyError
                       | Some info \<Rightarrow>
                           (let current_version = package_version info in
                            case parse c latest_version of
                              Inl e \<Rightarrow> Inl e
                            | Inr latest \<Rightarrow>
                                (case parse c (Some current_version) of
                                   Inl e \<Rightarrow> Inl e
                                 | Inr current \<Rightarrow>
                                     if latest > current
                                     then Inr (subprocess_run [''pipx'', ''upgrade'', app] w2)
                                     else Inr w2))))))"

section \<open>Running a script or a package\<close>

text \<open>\<open>_http_get_request(url)\<close>.\<close>

definition http_get_request :: "'v collaborators \<Rightarrow> string \<Rightarrow> error + string" where
  "http_get_request c url =
     (case urlopen_read c url of Inl e \<Rightarrow> Inl (PipxError e True) | Inr body \<Rightarrow> Inr body)"

text \<open>\<open>maybe_script_content(app, is_path)\<close>.\<close>

definition maybe_script_content ::
  "'v collaborators \<Rightarrow> string \<Rightarrow> bool \<Rightarrow> world \<Rightarrow> error + string option" where
  "maybe_script_content c app is_path w =
     (let app_path = Path c app in
      if path_exists w app_path then
        (case read_text c w app_path of Inl e \<Rightarrow> Inl e | Inr content \<Rightarrow> Inr (Some content))
      else if is_path then
        Inl (PipxError (''The specified path '' @ app @ '' does not exist'') True)
      else if urlparse_scheme c app \<noteq> [] then
        (if \<not> endswith app ''.py'' then
           Inl (PipxError
             (''\<newline>                pipx will only execute apps from the internet directly if they''
              @ ''\<newline>                end with '' @ [CHR 0x27] @ ''.py'' @ [CHR 0x27]
              @ ''. To run from an SVN, try pipx --spec URL BINARY''
              @ ''\<newline>                '') True)
         else (case http_get_request c app of Inl e \<Rightarrow> Inl e | Inr content \<Rightarrow> Inr (Some content)))
      else Inr None)"

text \<open>\<open>run_script(content, app_args, python, pip_args, venv_args, verbose, use_cache)\<close>.\<close>

definition run_script ::
  "'v collaborators \<Rightarrow> string \<Rightarrow> string list \<Rightarrow> string \<Rightarrow> string list \<Rightarrow> string list \<Rightarrow>
   bool \<Rightarrow> bool \<Rightarrow> world \<Rightarrow> error + outcome \<times> world" where
  "run_script c content app_args py pip_args venv_args verb use_cache w =
     (case get_requirements_from_script (Requirement c) content of
        Inl e \<Rightarrow> Inl e
      | Inr None \<Rightarrow> Inr (Exec_app ([py, ''-c'', content] @ app_args), w)
      | Inr (Some requirements) \<Rightarrow>
          (let venv_dir = get_temporary_venv_path c requirements py pip_args venv_args;
               v = Venv c w venv_dir None False
           in case prepare_venv_cache c v None use_cache w of
                Inl e \<Rightarrow> Inl e
              | Inr w1 \<Rightarrow>
                  if path_exists w1 venv_dir then
                    Inr (Exec_app ([python_path c v, ''-c'', content] @ app_args), w1)
                  else
                    (let v = Venv c w1 venv_dir (Some py) verb in
                     case create_venv c v venv_args pip_args w1 of
                       Inl e \<Rightarrow> Inl e
                     | Inr w2 \<Rightarrow>
                         (case install_unmanaged_packages c v requirements pip_args w2 of
                            Inl e \<Rightarrow> Inl e
                          | Inr w3 \<Rightarrow>
                              Inr (Exec_app ([python_path c v, ''-c'', content] @ app_args),
                                   w3)))))"

text \<open>The template \<open>APP_NOT_FOUND_ERROR_MESSAGE\<close>, as \<open>format\<close> fills it.\<close>

definition APP_NOT_FOUND_ERROR_MESSAGE :: "string \<Rightarrow> string \<Rightarrow> string \<Rightarrow> string" where
  "APP_NOT_FOUND_ERROR_MESSAGE app package_name app_lines =
     [CHR 0x27] @ app @ [CHR 0x27] @ '' executable script not found in package ''
     @ [CHR 0x27] @ package_name @ [CHR 0x27] @ ''.\<newline>Available executable scripts:\<newline>    ''
     @ app_lines"

text \<open>One element of the generator \<open>all_apps\<close>.\<close>

definition app_usage :: "string \<Rightarrow> string \<Rightarrow> string" where
  "app_usage package_or_url a =
     a @ '' - usage: '' @ [CHR 0x27] @ ''pipx run --spec '' @ package_or_url @ '' '' @ a
     @ '' [arguments?]'' @ [CHR 0x27]"

text \<open>
  \<open>_download_and_run(venv_dir, package_or_url, app, app_filename, app_args, python,
  pip_args, venv_args, use_cache, verbose)\<close>. \<open>install_package\<close> is always called with
  \<open>include_dependencies=False\<close>, \<open>include_apps=True\<close> and \<open>is_main_package=True\<close>.
\<close>

definition download_and_run ::
  "'v collaborators \<Rightarrow> path \<Rightarrow> string \<Rightarrow> string \<Rightarrow> string \<Rightarrow> string list \<Rightarrow> string \<Rightarrow>
   string list \<Rightarrow> string list \<Rightarrow> bool \<Rightarrow> bool \<Rightarrow> world \<Rightarrow> error + outcome \<times> world" where
  "download_and_run c venv_dir package_or_url app app_filename app_args py pip_args venv_args
     use_cache verb w =
     (let v = Venv c w venv_dir (Some py) verb in
      case create_venv c v venv_args pip_args w of
        Inl e \<Rightarrow> Inl e
      | Inr w1 \<Rightarrow>
      (case (case package (main_package v) of
               Some name \<Rightarrow> Inr name
             | None \<Rightarrow> package_name_from_spec c package_or_url py pip_args verb w1) of
        Inl e \<Rightarrow> Inl e
      | Inr package_name \<Rightarrow>
      (case install_package c v package_name package_or_url pip_args w1 of
        Inl e \<Rightarrow> Inl e
      | Inr (info, w2) \<Rightarrow>
      (let v2 = v\<lparr>main_package := info\<rparr> in
       case (if \<not> has_app c v2 w2 app app_filename then
               (let declared = apps (main_package v2) in
                if app = package_name \<and> length declared = 1 then
                  (let app1 = declared ! 0;
                       w3 = print (''NOTE: running app '' @ repr c app1 @ '' from ''
                                   @ repr c package_name) w2;
                       app_filename1 = (if WINDOWS c then app1 @ ''.exe'' else app1)
                   in Inr (app1, app_filename1, w3))
                else
                  (let all_apps = map (app_usage package_or_url) declared in
                   Inl (PipxError
                     (APP_NOT_FOUND_ERROR_MESSAGE app package_name
                        (join ''\<newline>    '' all_apps)) False)))
             else Inr (app, app_filename, w2)) of
         Inl e \<Rightarrow> Inl e
       | Inr (app2, app_filename2, w3) \<Rightarrow>
       (case (if \<not> use_cache then touch (joinpath venv_dir VENV_EXPIRED_FILENAME) w3
              else Inr w3) of
          Inl e \<Rightarrow> Inl e
        | Inr w4 \<Rightarrow> Inr (Run_app venv_dir app2 app_filename2 app_args, w4))))))"

text \<open>
  \<open>run_package(app, package_or_url, app_args, python, pip_args, venv_args, pypackages,
  verbose, use_cache)\<close>. The warning about an \<open>app\<close> already on the search path is
  logging only.
\<close>

definition run_package ::
  "'v collaborators \<Rightarrow> string \<Rightarrow> string \<Rightarrow> string list \<Rightarrow> string \<Rightarrow> string list \<Rightarrow>
   string list \<Rightarrow> bool \<Rightarrow> bool \<Rightarrow> bool \<Rightarrow> world \<Rightarrow> error + outcome \<times> world" where
  "run_package c app package_or_url app_args py pip_args venv_args pypackages verb use_cache w =
     (let app_filename = (if WINDOWS c then app @ ''.exe'' else app);
          pypackage_bin_path = get_pypackage_bin_path c app
      in
      if path_exists w pypackage_bin_path then
        Inr (Run_pypackage_bin pypackage_bin_path app_args, w)
      else if pypackages then
        Inl (PipxError
          (''\<newline>            '' @ [CHR 0x27] @ ''--pypackages'' @ [CHR 0x27]
           @ '' flag was passed, but '' @ [CHR 0x27] @ str_of_path c pypackage_bin_path
           @ [CHR 0x27] @ '' was''
           @ ''\<newline>            not found. See https://github.com/cs01/pythonloc to learn how to''
           @ ''\<newline>            install here, or omit the flag.''
           @ ''\<newline>            '') True)
      else
        (let venv_dir = get_temporary_venv_path c [package_or_url] py pip_args venv_args;
             v = Venv c w venv_dir None False;
             bin = joinpath (bin_path c v) app_filename
         in case prepare_venv_cache c v (Some bin) use_cache w of
              Inl e \<Rightarrow> Inl e
            | Inr w1 \<Rightarrow>
                if has_app c v w1 app app_filename then
                  Inr (Run_app venv_dir app app_filename app_args, w1)
                else
                  download_and_run c venv_dir package_or_url app app_filename app_args py
                    pip_args venv_args use_cache verb w1))"

text \<open>
  \<open>run(app, spec, is_path, app_args, python, pip_args, venv_args, pypackages, verbose,
  use_cache)\<close>; \<open>spec\<close> is a string or \<open>None\<close>.
\<close>

definition run ::
  "('v::linorder) collaborators \<Rightarrow> string \<Rightarrow> string option \<Rightarrow> bool \<Rightarrow> string list \<Rightarrow> string \<Rightarrow>
   string list \<Rightarrow> string list \<Rightarrow> bool \<Rightarrow> bool \<Rightarrow> bool \<Rightarrow> world \<Rightarrow> error + outcome \<times> world" where
  "run c app spec is_path app_args py pip_args venv_args pypackages verb use_cache w =
     (case check_version c app w of
        Inl e \<Rightarrow> Inl e
      | Inr w1 \<Rightarrow>
          (let package_name = (case Requirement c app of Inr req \<Rightarrow> req_name req | Inl e \<Rightarrow> app) in
           case (case spec of
                   Some s \<Rightarrow> Inr None
                 | None \<Rightarrow> maybe_script_content c app is_path w1) of
             Inl e \<Rightarrow> Inl e
           | Inr (Some content) \<Rightarrow>
               run_script c content app_args py pip_args venv_args verb use_cache w1
           | Inr None \<Rightarrow>
               (let package_or_url = (case spec of Some s \<Rightarrow> s | None \<Rightarrow> app) in
                run_package c package_name package_or_url app_args py pip_args venv_args
                  pypackages verb use_cache w1)))"

section \<open>Concrete inputs\<close>

text \<open>
  Collaborators and a file system on which the theorems below are evaluated. The
  parser rejects a line that holds an exclamation mark and normalises every other
  line by removing its whitespace; the digest is a toy function of its input; creating
  an environment adds its root directory; installing a package records the declared
  applications it is given and changes no file.
\<close>

definition demo_parser :: requirement_parser where
  "demo_parser s =
     (if CHR ''!'' \<in> set s then Inl ''Expected end or semicolon''
      else Inr \<lparr>req_name = takeWhile (\<lambda>ch. ch \<noteq> CHR ''>'' \<and> \<not> isspace ch) s,
                req_str = filter (\<lambda>ch. \<not> isspace ch) s\<rparr>)"

definition demo_digest :: "8 word list \<Rightarrow> string" where
  "demo_digest bs =
     take 64 (map (\<lambda>b. if b = 97 then CHR ''a'' else if b = 98 then CHR ''b'' else CHR ''0'') bs
              @ ''ffffffffffffffffffffffffffffffffffffffffffffffffffffffffffffffff'')"

definition demo_create_venv :: "venv \<Rightarrow> string list \<Rightarrow> string list \<Rightarrow> world \<Rightarrow> error + world" where
  "demo_create_venv v venv_args pip_args w =
     Inr (w\<lparr>files := AList.update (root v) (now w) (files w)\<rparr>)"

definition demo_install_package ::
  "string list \<Rightarrow> venv \<Rightarrow> string \<Rightarrow> string \<Rightarrow> string list \<Rightarrow> world \<Rightarrow> error + package_info \<times> world" where
  "demo_install_package declared v package_name package_or_url pip_args w =
     Inr (\<lparr>package = Some package_name, apps = declared, package_version = ''1.0''\<rparr>, w)"

definition demo :: "nat collaborators" where
  "demo =
     \<lparr>PIPX_LOCAL_VENVS = [''home'', ''venvs''],
      PIPX_VENV_CACHEDIR = [''home'', ''cache''],
      TEMP_VENV_EXPIRATION_THRESHOLD_DAYS = 14,
      WINDOWS = False,
      Requirement = demo_parser,
      version_parse = (\<lambda>s. if s = ''1.0'' then Some 1 else if s = ''2.0'' then Some 2 else None),
      sha256_hexdigest = demo_digest,
      repr = (\<lambda>s. [CHR 0x27] @ s @ [CHR 0x27]),
      requests_get = (\<lambda>url. Inl ''Connection refused''),
      select_one_text = (\<lambda>html. None),
      urlopen_read = (\<lambda>url. Inl ''unreachable''),
      urlparse_scheme = (\<lambda>s. []),
      Path = (\<lambda>s. [s]),
      str_of_path = join ''/'',
      read_text = (\<lambda>w p. Inl FileNotFoundError),
      get_pypackage_bin_path = (\<lambda>app. [''__pypackages__'', ''bin'', app]),
      read_main_package = (\<lambda>w p. \<lparr>package = None, apps = [], package_version = []\<rparr>),
      read_package_metadata =
        (\<lambda>w p. [(''black'', \<lparr>package = Some ''black'', apps = [''black''], package_version = ''1.0''\<rparr>)]),
      bin_path = (\<lambda>v. joinpath (root v) ''bin''),
      python_path = (\<lambda>v. join ''/'' (root v @ [''bin'', ''python''])),
      has_app = (\<lambda>v w app filename. path_exists w (root v @ [''bin'', filename])),
      create_venv = demo_create_venv,
      install_package = demo_install_package [''a'', ''b''],
      install_unmanaged_packages = (\<lambda>v requirements pip_args w. Inr w),
      package_name_from_spec = (\<lambda>package_or_url py pip_args verb w. Inr package_or_url)\<rparr>"

definition demo_world :: world where
  "demo_world =
     \<lparr>files = [([''home''], 0), ([''home'', ''cache''], 0), ([''home'', ''venvs''], 0)],
      now = 1000, stdout = [], subprocesses = []\<rparr>"


text \<open>The same collaborators with a package that declares the single application \<open>foo-cli\<close>.\<close>

definition demo_single :: "nat collaborators" where
  "demo_single = demo\<lparr>install_package := demo_install_package [''foo-cli'']\<rparr>"

text \<open>
  A state in which the marker of the version check exists, 100 seconds old, in the
  directory \<open>{app}\<close>, and collaborators whose version oracle answers with a page that
  names version 2.0.
\<close>

definition marked_world :: world where
  "marked_world =
     \<lparr>files = [([''home''], 0), ([''home'', ''cache''], 0), ([''home'', ''venvs''], 0),
               ([''home'', ''venvs'', ''{app}''], 0),
               ([''home'', ''venvs'', ''{app}'', ''pipx_version_check''], 900)],
      now = 1000, stdout = [], subprocesses = []\<rparr>"

definition demo_online :: "nat collaborators" where
  "demo_online =
     demo\<lparr>requests_get := (\<lambda>url. Inr ''<h1 class=package-header__name>black 2.0</h1>''),
          select_one_text := (\<lambda>html. Some ''black 2.0'')\<rparr>"


text \<open>
  States and collaborators for the paths of \<open>run_script\<close>: a cache that already holds
  the environment of a script without requirements, a file system without cache
  directory, and provisioners whose creation or installation step fails.
\<close>

definition cached_world :: world where
  "cached_world =
     \<lparr>files = [([''home''], 0), ([''home'', ''cache''], 0), ([''home'', ''venvs''], 0),
               ([''home'', ''cache'', ''0000000ffffffff''], 900)],
      now = 1000, stdout = [], subprocesses = []\<rparr>"

definition bare_world :: world where
  "bare_world = \<lparr>files = [([''home''], 0)], now = 1000, stdout = [], subprocesses = []\<rparr>"

definition demo_failing_create :: "nat collaborators" where
  "demo_failing_create =
     demo\<lparr>create_venv := (\<lambda>v venv_args pip_args w. Inl (ExternalError ''venv failed''))\<rparr>"

definition demo_failing_install :: "nat collaborators" where
  "demo_failing_install =
     demo\<lparr>install_unmanaged_packages :=
            (\<lambda>v requirements pip_args w. Inl (ExternalError ''pip failed''))\<rparr>"

section \<open>Properties of requirement extraction\<close>

lemmas eval_strings =
  splitlines_def is_linebreak_def startswith_def strip_def lstrip_def rstrip_def isspace_def

lemmas eval_demo =
  demo_def demo_single_def demo_world_def demo_create_venv_def demo_install_package_def
  demo_digest_def demo_parser_def

lemmas eval_fs =
  path_exists_def st_ctime_def touch_def open_w_def iterdir_def rmdir_def joinpath_def
  print_def subprocess_run_def mktime_now_def

lemma find_requirements_header_skip:
  "\<forall>l\<in>set pre. \<not> (startswith l ''#'' \<and> strip (drop 1 l) = ''Requirements:'') \<Longrightarrow>
   find_requirements_header (pre @ rest) = find_requirements_header rest"
  by (induction pre) auto

lemma find_requirements_header_None:
  "(find_requirements_header lines = None) =
   (\<not> (\<exists>l\<in>set lines. startswith l ''#'' \<and> strip (drop 1 l) = ''Requirements:''))"
  by (induction lines) auto

lemma read_requirements_parsed:
  "\<forall>l\<in>set good. startswith l ''#'' \<and> strip (drop 1 l) \<noteq> [] \<and>
      (\<exists>r. parser (strip (drop 1 l)) = Inr r) \<Longrightarrow>
   read_requirements parser (good @ rest) acc =
   read_requirements parser rest
     (acc @ map (\<lambda>l. req_str (projr (parser (strip (drop 1 l))))) good)"
proof (induction good arbitrary: acc)
  case Nil
  then show ?case by simp
next
  case (Cons l good)
  then obtain r where r: "parser (strip (drop 1 l)) = Inr r" by auto
  from Cons.prems have l: "startswith l ''#''" "strip (drop 1 l) \<noteq> []" by auto
  have "read_requirements parser ((l # good) @ rest) acc =
        read_requirements parser (good @ rest) (acc @ [req_str r])"
    using l r by (simp add: Let_def)
  also have "\<dots> = read_requirements parser rest
      ((acc @ [req_str r]) @ map (\<lambda>l. req_str (projr (parser (strip (drop 1 l))))) good)"
    using Cons.prems by (intro Cons.IH) auto
  finally show ?case using r by simp
qed

lemma read_requirements_stops:
  "rest = [] \<or> \<not> startswith (hd rest) ''#'' \<or> strip (drop 1 (hd rest)) = [] \<Longrightarrow>
   read_requirements parser rest acc = Inr acc"
  by (cases rest) (auto simp: Let_def)

lemma requirements_from_lines_header:
  assumes "\<forall>l\<in>set pre. \<not> (startswith l ''#'' \<and> strip (drop 1 l) = ''Requirements:'')"
    and "startswith hdr ''#''" and "strip (drop 1 hdr) = ''Requirements:''"
  shows "requirements_from_lines parser (pre @ hdr # rest) =
         (case read_requirements parser rest [] of
            Inl e \<Rightarrow> Inl e | Inr requirements \<Rightarrow> Inr (Some requirements))"
  using assms by (simp add: requirements_from_lines_def find_requirements_header_skip)

lemma requirements_from_lines_None:
  "(requirements_from_lines parser lines = Inr None) =
   (\<not> (\<exists>l\<in>set lines. startswith l ''#'' \<and> strip (drop 1 l) = ''Requirements:''))"
  unfolding find_requirements_header_None [symmetric]
  by (auto simp: requirements_from_lines_def split: option.splits sum.splits)

text \<open>
  C7. A requirement block is the run of lines after the first header line. When the
  lines \<open>good\<close> of the block parse and the next line \<open>bad\<close> of the block does not,
  extraction raises \<open>PipxError\<close> (a fatal, user-facing error); its message is
  \<open>Invalid requirement\<close>, the text of the offending line as written (the line without
  its comment marker and surrounding whitespace, not normalised), a colon and the
  parser's complaint. The result is the same whatever lines \<open>rest\<close> follow the
  malformed line: none of them is processed. The lines before it cause no error on
  their own: a script that ends after them yields their normalised texts.
\<close>

theorem invalid_requirement_is_fatal:
  assumes "\<forall>l\<in>set pre. \<not> (startswith l ''#'' \<and> strip (drop 1 l) = ''Requirements:'')"
    and "startswith hdr ''#''" and "strip (drop 1 hdr) = ''Requirements:''"
    and "\<forall>l\<in>set good. startswith l ''#'' \<and> strip (drop 1 l) \<noteq> [] \<and>
           (\<exists>r. parser (strip (drop 1 l)) = Inr r)"
    and "startswith bad ''#''" and "strip (drop 1 bad) \<noteq> []"
    and "parser (strip (drop 1 bad)) = Inl complaint"
  shows "(splitlines content = pre @ hdr # good @ bad # rest \<longrightarrow>
            get_requirements_from_script parser content =
              Inl (PipxError (''Invalid requirement '' @ strip (drop 1 bad) @ '': '' @ complaint)
                     True))
       \<and> (splitlines content' = pre @ hdr # good \<longrightarrow>
            get_requirements_from_script parser content' =
              Inr (Some (map (\<lambda>l. req_str (projr (parser (strip (drop 1 l))))) good)))"
proof -
  have "requirements_from_lines parser (pre @ hdr # good @ bad # rest) =
        Inl (PipxError (''Invalid requirement '' @ strip (drop 1 bad) @ '': '' @ complaint) True)"
    using assms
    by (simp add: requirements_from_lines_header read_requirements_parsed Let_def)
  moreover have "requirements_from_lines parser (pre @ hdr # good) =
        Inr (Some (map (\<lambda>l. req_str (projr (parser (strip (drop 1 l))))) good))"
    using assms read_requirements_parsed [of good parser "[]" "[]"]
    by (simp add: requirements_from_lines_header)
  ultimately show ?thesis
    by (simp add: get_requirements_from_script_def)
qed

theorem invalid_requirement_is_fatal_witness:
  "get_requirements_from_script demo_parser
     (''import six\<newline># Requirements:\<newline># six\<newline>#   six >= 1 !!\<newline># requests\<newline>'') =
     Inl (PipxError ''Invalid requirement six >= 1 !!: Expected end or semicolon'' True)
   \<and> get_requirements_from_script demo_parser (''import six\<newline># Requirements:\<newline># six'') =
     Inr (Some [''six''])"
proof -
  let ?content = "''import six\<newline># Requirements:\<newline># six\<newline>#   six >= 1 !!\<newline># requests\<newline>''"
  let ?content' = "''import six\<newline># Requirements:\<newline># six''"
  have lines: "splitlines ?content =
      [''import six''] @ ''# Requirements:'' # [''# six''] @ ''#   six >= 1 !!'' # [''# requests'']"
    and lines': "splitlines ?content' = [''import six''] @ ''# Requirements:'' # [''# six'']"
    by (simp_all add: eval_strings)
  have pre: "\<forall>l\<in>set [''import six'']. \<not> (startswith l ''#'' \<and> strip (drop 1 l) = ''Requirements:'')"
    and hdr: "startswith ''# Requirements:'' ''#''" "strip (drop 1 ''# Requirements:'') = ''Requirements:''"
    and good: "\<forall>l\<in>set [''# six'']. startswith l ''#'' \<and> strip (drop 1 l) \<noteq> [] \<and>
           (\<exists>r. demo_parser (strip (drop 1 l)) = Inr r)"
    and bad: "startswith ''#   six >= 1 !!'' ''#''" "strip (drop 1 ''#   six >= 1 !!'') \<noteq> []"
      "demo_parser (strip (drop 1 ''#   six >= 1 !!'')) = Inl ''Expected end or semicolon''"
    by (simp_all add: eval_strings demo_parser_def)
  have e1: "strip (drop 1 ''#   six >= 1 !!'') = ''six >= 1 !!''"
    by (simp add: eval_strings)
  have e2: "map (\<lambda>l. req_str (projr (demo_parser (strip (drop 1 l))))) [''# six''] = [''six'']"
    by (simp add: eval_strings demo_parser_def)
  have e3: "''Invalid requirement '' @ ''six >= 1 !!'' @ '': '' @ ''Expected end or semicolon'' =
      ''Invalid requirement six >= 1 !!: Expected end or semicolon''"
    by simp
  from invalid_requirement_is_fatal [OF pre hdr good bad, of ?content "[''# requests'']" ?content']
    lines lines'
  show ?thesis
    unfolding e1 e2 e3 by blast
qed

text \<open>
  C10. A line is a comment only when its first character is \<open>#\<close>
  (\<open>line.startswith("#")\<close>); a line that starts with whitespace does not start with
  \<open>#\<close>. Before the header is found, a line that does not start with \<open>#\<close> is skipped:
  the script without it gives the same result, so it never opens a requirement block.
  Inside a block such a line ends the block: the requirements read so far are the
  result and neither the line nor anything after it contributes.
\<close>

theorem indented_comment_is_not_a_comment:
  assumes "\<forall>l\<in>set pre. \<not> (startswith l ''#'' \<and> strip (drop 1 l) = ''Requirements:'')"
    and "\<not> startswith line ''#''"
  shows "(indented \<noteq> [] \<and> isspace (hd indented) \<longrightarrow> \<not> startswith indented ''#'')
       \<and> (splitlines content = pre @ line # rest \<and> splitlines content' = pre @ rest \<longrightarrow>
            get_requirements_from_script parser content =
            get_requirements_from_script parser content')
       \<and> (startswith hdr ''#'' \<and> strip (drop 1 hdr) = ''Requirements:''
          \<and> (\<forall>l\<in>set good. startswith l ''#'' \<and> strip (drop 1 l) \<noteq> [] \<and>
                (\<exists>r. parser (strip (drop 1 l)) = Inr r))
          \<and> splitlines script = pre @ hdr # good @ line # rest \<longrightarrow>
            get_requirements_from_script parser script =
              Inr (Some (map (\<lambda>l. req_str (projr (parser (strip (drop 1 l))))) good)))"
proof (intro conjI impI)
  assume "indented \<noteq> [] \<and> isspace (hd indented)"
  then show "\<not> startswith indented ''#''"
    by (cases indented) (auto simp: startswith_def isspace_def)
next
  assume "splitlines content = pre @ line # rest \<and> splitlines content' = pre @ rest"
  moreover have "find_requirements_header (pre @ line # rest) = find_requirements_header (pre @ rest)"
    using assms by (simp add: find_requirements_header_skip)
  ultimately show "get_requirements_from_script parser content =
      get_requirements_from_script parser content'"
    by (simp add: get_requirements_from_script_def requirements_from_lines_def)
next
  assume a: "startswith hdr ''#'' \<and> strip (drop 1 hdr) = ''Requirements:''
          \<and> (\<forall>l\<in>set good. startswith l ''#'' \<and> strip (drop 1 l) \<noteq> [] \<and>
                (\<exists>r. parser (strip (drop 1 l)) = Inr r))
          \<and> splitlines script = pre @ hdr # good @ line # rest"
  then have "read_requirements parser (good @ line # rest) [] =
      Inr (map (\<lambda>l. req_str (projr (parser (strip (drop 1 l))))) good)"
    using assms(2) by (simp add: read_requirements_parsed)
  then show "get_requirements_from_script parser script =
      Inr (Some (map (\<lambda>l. req_str (projr (parser (strip (drop 1 l))))) good))"
    using a assms(1) by (simp add: get_requirements_from_script_def requirements_from_lines_header)
qed

theorem indented_comment_is_not_a_comment_witness:
  "\<not> startswith ''   # Requirements:'' ''#''
   \<and> get_requirements_from_script demo_parser (''   # Requirements:\<newline># six'') = Inr None
   \<and> get_requirements_from_script demo_parser
       (''# Requirements:\<newline># six\<newline>   # requests\<newline># flask'') = Inr (Some [''six''])"
proof -
  let ?line = "''   # requests''"
  let ?content = "''   # Requirements:\<newline># six''"
  let ?content2 = "''# Requirements:\<newline># six\<newline>   # requests\<newline># flask''"
  have pre: "\<forall>l\<in>set []. \<not> (startswith l ''#'' \<and> strip (drop 1 l) = ''Requirements:'')"
    by simp
  have line: "\<not> startswith ''   # Requirements:'' ''#''" "\<not> startswith ?line ''#''"
    by (simp_all add: startswith_def)
  have lines: "splitlines ?content = [] @ ''   # Requirements:'' # [''# six'']"
    and lines': "splitlines ''# six'' = [] @ [''# six'']"
    and lines2: "splitlines ?content2 = [] @ ''# Requirements:'' # [''# six''] @ ?line # [''# flask'']"
    by (simp_all add: eval_strings)
  have none: "get_requirements_from_script demo_parser ''# six'' = Inr None"
    by (simp add: get_requirements_from_script_def requirements_from_lines_def eval_strings)
  have hdr: "startswith ''# Requirements:'' ''#'' \<and> strip (drop 1 ''# Requirements:'') = ''Requirements:''
      \<and> (\<forall>l\<in>set [''# six'']. startswith l ''#'' \<and> strip (drop 1 l) \<noteq> [] \<and>
                (\<exists>r. demo_parser (strip (drop 1 l)) = Inr r))"
    by (simp add: eval_strings demo_parser_def)
  have e: "map (\<lambda>l. req_str (projr (demo_parser (strip (drop 1 l))))) [''# six''] = [''six'']"
    by (simp add: eval_strings demo_parser_def)
  from indented_comment_is_not_a_comment [OF pre line(1), where indented = "''   # Requirements:''"
      and content = ?content and rest = "[''# six'']" and content' = "''# six''"
      and parser = demo_parser]
    lines lines' none
  have r1: "get_requirements_from_script demo_parser ?content = Inr None"
    by simp
  from indented_comment_is_not_a_comment [OF pre line(2), where rest = "[''# flask'']"
      and hdr = "''# Requirements:''" and good = "[''# six'']" and parser = demo_parser
      and script = ?content2]
    hdr lines2
  have r2: "get_requirements_from_script demo_parser ?content2 = Inr (Some [''six''])"
    unfolding e by blast
  from line(1) r1 r2 show ?thesis by blast
qed

section \<open>Properties of the fingerprint\<close>

lemma join_empty_sep: "join [] xs = concat xs"
  by (induction "[] :: string" xs rule: join.induct) simp_all

lemma encode_append: "encode (a @ b) = encode a @ encode b"
  by (simp add: encode_def)

text \<open>
  C8. The directory of an environment is the cache directory joined with the first 15
  characters of the hexadecimal digest of the bytes of: the requirement strings
  concatenated without separator, then the interpreter, then the provisioning
  arguments concatenated, then the environment-creation arguments concatenated. The
  name has 15 characters whenever the digest has at least 15 (SHA-256 gives 64). Two
  requirement lists with the same concatenation, with the other arguments equal, give
  the same directory.
\<close>

theorem fingerprint_is_digest_prefix_of_concatenation:
  "get_temporary_venv_path c requirements py pip_args venv_args =
     joinpath (PIPX_VENV_CACHEDIR c)
       (take 15 (sha256_hexdigest c
          (encode (concat requirements @ py @ concat pip_args @ concat venv_args))))
   \<and> (15 \<le> length (sha256_hexdigest c
              (encode (concat requirements @ py @ concat pip_args @ concat venv_args))) \<longrightarrow>
        length (last (get_temporary_venv_path c requirements py pip_args venv_args)) = 15)
   \<and> (concat requirements = concat requirements' \<longrightarrow>
        get_temporary_venv_path c requirements py pip_args venv_args =
        get_temporary_venv_path c requirements' py pip_args venv_args)"
  by (simp add: get_temporary_venv_path_def Let_def sha256_def update_def hexdigest_def
      join_empty_sep encode_append joinpath_def)

theorem fingerprint_is_digest_prefix_of_concatenation_witness:
  "get_temporary_venv_path demo [''ab''] ''python3'' [] [] = [''home'', ''cache'', ''ab0000000ffffff'']
   \<and> get_temporary_venv_path demo [''a'', ''b''] ''python3'' [] [] =
       get_temporary_venv_path demo [''ab''] ''python3'' [] []
   \<and> length (last (get_temporary_venv_path demo [''ab''] ''python3'' [] [])) = 15"
proof -
  have d: "sha256_hexdigest demo (encode (concat [''ab''] @ ''python3'' @ concat [] @ concat []))
      = ''ab0000000fffffffffffffffffffffffffffffffffffffffffffffffffffffff''"
    by (simp add: demo_def demo_digest_def encode_def utf8_def)
  have len: "15 \<le> length (sha256_hexdigest demo
      (encode (concat [''ab''] @ ''python3'' @ concat [] @ concat [])))"
    unfolding d by simp
  have cc: "concat [''a'', ''b''] = concat [''ab'']"
    by simp
  have cache: "PIPX_VENV_CACHEDIR demo = [''home'', ''cache'']"
    by (simp add: demo_def)
  note t = fingerprint_is_digest_prefix_of_concatenation [of demo _ "''python3''" "[]" "[]"]
  have p: "get_temporary_venv_path demo [''ab''] ''python3'' [] [] = [''home'', ''cache'', ''ab0000000ffffff'']"
    using t [of "[''ab'']", THEN conjunct1] unfolding d cache by (simp add: joinpath_def)
  from t [of "[''ab'']", THEN conjunct2, THEN conjunct1] len
    t [of "[''a'', ''b'']" "[''ab'']", THEN conjunct2, THEN conjunct2] cc p
  show ?thesis by blast
qed

section \<open>Properties of the cache life cycle\<close>




section \<open>Properties of running a package\<close>


lemma path_exists_print [simp]: "path_exists (print line w) p = path_exists w p"
  by (simp add: path_exists_def print_def)




section \<open>Properties of running a script\<close>

text \<open>
  C6. Extraction returns \<open>None\<close> if and only if no line of the script starts with \<open>#\<close>
  and has the content \<open>Requirements:\<close> once the \<open>#\<close> and the surrounding whitespace are
  removed. When the first such line is followed by the end of the script, by a line
  that is not a comment or by a comment line with blank content, the result is the
  empty list and not \<open>None\<close>. \<open>run_script\<close> executes the script directly with the
  interpreter it is given, in an unchanged state, when extraction returns \<open>None\<close>, and
  fails with the error of extraction when extraction fails. When extraction returns
  a list, the empty one included, \<open>run_script\<close> takes the cache path for the
  fingerprint of that list: it prepares the cache, and a failure there is the
  failure of the run; if the fingerprint's directory then exists, the script is
  executed with the interpreter of that cached environment in the prepared state;
  if not, an environment is created there and the requirements are installed into
  it, a failure of either step is the failure of the run, and the script is executed
  with the interpreter of the new environment in the state installation has left.
\<close>

theorem requirements_none_iff_no_header:
  fixes c :: "'v collaborators"
  shows
  "((get_requirements_from_script parser content = Inr None) =
      (\<not> (\<exists>line\<in>set (splitlines content).
              startswith line ''#'' \<and> strip (drop 1 line) = ''Requirements:'')))
   \<and> (splitlines content = pre @ hdr # rest
      \<and> (\<forall>l\<in>set pre. \<not> (startswith l ''#'' \<and> strip (drop 1 l) = ''Requirements:''))
      \<and> startswith hdr ''#'' \<and> strip (drop 1 hdr) = ''Requirements:''
      \<and> (rest = [] \<or> \<not> startswith (hd rest) ''#'' \<or> strip (drop 1 (hd rest)) = []) \<longrightarrow>
        get_requirements_from_script parser content = Inr (Some []))
   \<and> (get_requirements_from_script (Requirement c) content = Inr None \<longrightarrow>
        run_script c content app_args py pip_args venv_args verb use_cache w =
          Inr (Exec_app ([py, ''-c'', content] @ app_args), w))
   \<and> (get_requirements_from_script (Requirement c) content = Inl err \<longrightarrow>
        run_script c content app_args py pip_args venv_args verb use_cache w = Inl err)
   \<and> (get_requirements_from_script (Requirement c) content = Inr (Some requirements) \<longrightarrow>
        (let venv_dir = get_temporary_venv_path c requirements py pip_args venv_args;
             cached = Venv c w venv_dir None False;
             prepared = prepare_venv_cache c cached None use_cache w
         in (prepared = Inl e \<longrightarrow>
               run_script c content app_args py pip_args venv_args verb use_cache w = Inl e)
          \<and> (prepared = Inr w_prepared \<and> path_exists w_prepared venv_dir \<longrightarrow>
               run_script c content app_args py pip_args venv_args verb use_cache w =
                 Inr (Exec_app ([python_path c cached, ''-c'', content] @ app_args), w_prepared))
          \<and> (prepared = Inr w_prepared \<and> \<not> path_exists w_prepared venv_dir \<longrightarrow>
               (let built = Venv c w_prepared venv_dir (Some py) verb
                in (create_venv c built venv_args pip_args w_prepared = Inl e \<longrightarrow>
                      run_script c content app_args py pip_args venv_args verb use_cache w
                        = Inl e)
                 \<and> (create_venv c built venv_args pip_args w_prepared = Inr w_created
                    \<and> install_unmanaged_packages c built requirements pip_args w_created = Inl e \<longrightarrow>
                      run_script c content app_args py pip_args venv_args verb use_cache w
                        = Inl e)
                 \<and> (create_venv c built venv_args pip_args w_prepared = Inr w_created
                    \<and> install_unmanaged_packages c built requirements pip_args w_created = Inr w_installed \<longrightarrow>
                      run_script c content app_args py pip_args venv_args verb use_cache w
                        = Inr (Exec_app ([python_path c built, ''-c'', content] @ app_args),
                               w_installed))))))"
proof (intro conjI impI)
  show "(get_requirements_from_script parser content = Inr None) =
      (\<not> (\<exists>line\<in>set (splitlines content).
              startswith line ''#'' \<and> strip (drop 1 line) = ''Requirements:''))"
    by (simp add: get_requirements_from_script_def requirements_from_lines_None)
next
  assume "splitlines content = pre @ hdr # rest
      \<and> (\<forall>l\<in>set pre. \<not> (startswith l ''#'' \<and> strip (drop 1 l) = ''Requirements:''))
      \<and> startswith hdr ''#'' \<and> strip (drop 1 hdr) = ''Requirements:''
      \<and> (rest = [] \<or> \<not> startswith (hd rest) ''#'' \<or> strip (drop 1 (hd rest)) = [])"
  then show "get_requirements_from_script parser content = Inr (Some [])"
    by (simp add: get_requirements_from_script_def requirements_from_lines_header
        read_requirements_stops)
next
  assume "get_requirements_from_script (Requirement c) content = Inr None"
  then show "run_script c content app_args py pip_args venv_args verb use_cache w =
          Inr (Exec_app ([py, ''-c'', content] @ app_args), w)"
    by (simp add: run_script_def)
next
  assume "get_requirements_from_script (Requirement c) content = Inl err"
  then show "run_script c content app_args py pip_args venv_args verb use_cache w = Inl err"
    by (simp add: run_script_def)
next
  assume "get_requirements_from_script (Requirement c) content = Inr (Some requirements)"
  then show "let venv_dir = get_temporary_venv_path c requirements py pip_args venv_args;
             cached = Venv c w venv_dir None False;
             prepared = prepare_venv_cache c cached None use_cache w
         in (prepared = Inl e \<longrightarrow>
               run_script c content app_args py pip_args venv_args verb use_cache w = Inl e)
          \<and> (prepared = Inr w_prepared \<and> path_exists w_prepared venv_dir \<longrightarrow>
               run_script c content app_args py pip_args venv_args verb use_cache w =
                 Inr (Exec_app ([python_path c cached, ''-c'', content] @ app_args), w_prepared))
          \<and> (prepared = Inr w_prepared \<and> \<not> path_exists w_prepared venv_dir \<longrightarrow>
               (let built = Venv c w_prepared venv_dir (Some py) verb
                in (create_venv c built venv_args pip_args w_prepared = Inl e \<longrightarrow>
                      run_script c content app_args py pip_args venv_args verb use_cache w
                        = Inl e)
                 \<and> (create_venv c built venv_args pip_args w_prepared = Inr w_created
                    \<and> install_unmanaged_packages c built requirements pip_args w_created = Inl e \<longrightarrow>
                      run_script c content app_args py pip_args venv_args verb use_cache w
                        = Inl e)
                 \<and> (create_venv c built venv_args pip_args w_prepared = Inr w_created
                    \<and> install_unmanaged_packages c built requirements pip_args w_created = Inr w_installed \<longrightarrow>
                      run_script c content app_args py pip_args venv_args verb use_cache w
                        = Inr (Exec_app ([python_path c built, ''-c'', content] @ app_args),
                               w_installed))))"
    by (simp add: run_script_def Let_def)
qed

theorem requirements_none_iff_no_header_witness:
  "get_requirements_from_script demo_parser ''print(1)'' = Inr None
   \<and> get_requirements_from_script demo_parser (''# Requirements:\<newline>#\<newline># six\<newline>print(1)'')
       = Inr (Some [])
   \<and> run_script demo ''print(1)'' [''x''] ''python3'' [] [] False True demo_world
       = Inr (Exec_app [''python3'', ''-c'', ''print(1)'', ''x''], demo_world)
   \<and> run_script demo (''# Requirements:\<newline># six !!'') [''x''] ''python3'' [] [] False True demo_world
       = Inl (PipxError ''Invalid requirement six !!: Expected end or semicolon'' True)
   \<and> run_script demo (''# Requirements:\<newline>#\<newline># six\<newline>print(1)'') [''x''] ''python3'' [] []
        False True bare_world
       = Inl FileNotFoundError
   \<and> run_script demo (''# Requirements:\<newline>#\<newline># six\<newline>print(1)'') [''x''] ''python3'' [] []
        False True cached_world
       = Inr (Exec_app [''home/cache/0000000ffffffff/bin/python'', ''-c'',
                        ''# Requirements:\<newline>#\<newline># six\<newline>print(1)'', ''x''], cached_world)
   \<and> run_script demo_failing_create (''# Requirements:\<newline>#\<newline># six\<newline>print(1)'') [''x'']
        ''python3'' [] [] False True demo_world
       = Inl (ExternalError ''venv failed'')
   \<and> run_script demo_failing_install (''# Requirements:\<newline>#\<newline># six\<newline>print(1)'') [''x'']
        ''python3'' [] [] False True demo_world
       = Inl (ExternalError ''pip failed'')
   \<and> run_script demo (''# Requirements:\<newline>#\<newline># six\<newline>print(1)'') [''x''] ''python3'' [] []
        False True demo_world
       = Inr (Exec_app [''home/cache/0000000ffffffff/bin/python'', ''-c'',
                        ''# Requirements:\<newline>#\<newline># six\<newline>print(1)'', ''x''],
              demo_world\<lparr>files := files demo_world
                           @ [([''home'', ''cache'', ''0000000ffffffff''], 1000)]\<rparr>)"
proof -
  let ?plain = "''print(1)''"
  let ?headed = "''# Requirements:\<newline>#\<newline># six\<newline>print(1)''"
  let ?broken = "''# Requirements:\<newline># six !!''"
  let ?dir = "[''home'', ''cache'', ''0000000ffffffff'']"
  let ?w' = "demo_world\<lparr>files := files demo_world @ [(?dir, 1000)]\<rparr>"
  let ?python = "''home/cache/0000000ffffffff/bin/python''"
  note t = requirements_none_iff_no_header
  note eval_variants = demo_failing_create_def demo_failing_install_def eval_demo
  note eval_prepare = prepare_venv_cache_def remove_all_expired_venvs_def
      is_temporary_venv_expired_def VENV_EXPIRED_FILENAME_def Venv_def eval_fs
  note eval_path = get_temporary_venv_path_def Let_def sha256_def update_def hexdigest_def
      encode_def utf8_def joinpath_def

  have parser: "Requirement demo = demo_parser"
    "Requirement demo_failing_create = demo_parser"
    "Requirement demo_failing_install = demo_parser"
    by (simp_all add: demo_failing_create_def demo_failing_install_def demo_def)
  have no_header: "\<not> (\<exists>line\<in>set (splitlines ?plain).
      startswith line ''#'' \<and> strip (drop 1 line) = ''Requirements:'')"
    by (simp add: eval_strings)
  have r1: "get_requirements_from_script demo_parser ?plain = Inr None"
    using t [where parser = demo_parser and content = ?plain, THEN conjunct1] no_header
    by blast
  have header: "splitlines ?headed = [] @ ''# Requirements:'' # [''#'', ''# six'', ''print(1)'']
      \<and> (\<forall>l\<in>set []. \<not> (startswith l ''#'' \<and> strip (drop 1 l) = ''Requirements:''))
      \<and> startswith ''# Requirements:'' ''#'' \<and> strip (drop 1 ''# Requirements:'') = ''Requirements:''
      \<and> ([''#'', ''# six'', ''print(1)''] = []
         \<or> \<not> startswith (hd [''#'', ''# six'', ''print(1)'']) ''#''
         \<or> strip (drop 1 (hd [''#'', ''# six'', ''print(1)''])) = [])"
    by (simp add: eval_strings)
  have r2: "get_requirements_from_script demo_parser ?headed = Inr (Some [])"
    using t [where parser = demo_parser and content = ?headed and pre = "[]"
        and hdr = "''# Requirements:''" and rest = "[''#'', ''# six'', ''print(1)'']",
        THEN conjunct2, THEN conjunct1] header
    by blast
  have broken: "get_requirements_from_script demo_parser ?broken
      = Inl (PipxError ''Invalid requirement six !!: Expected end or semicolon'' True)"
    by (simp add: get_requirements_from_script_def requirements_from_lines_def Let_def
        eval_strings demo_parser_def)

  have r3: "run_script demo ?plain [''x''] ''python3'' [] [] False True demo_world
       = Inr (Exec_app ([''python3'', ''-c'', ?plain] @ [''x'']), demo_world)"
    using t [where c = demo and content = ?plain and w = demo_world and app_args = "[''x'']"
        and py = "''python3''", THEN conjunct2, THEN conjunct2, THEN conjunct1] r1
    unfolding parser by blast
  have r4: "run_script demo ?broken [''x''] ''python3'' [] [] False True demo_world
       = Inl (PipxError ''Invalid requirement six !!: Expected end or semicolon'' True)"
    using t [where c = demo and content = ?broken and w = demo_world
        and err = "PipxError ''Invalid requirement six !!: Expected end or semicolon'' True",
        THEN conjunct2, THEN conjunct2, THEN conjunct2, THEN conjunct1] broken
    unfolding parser by blast

  have dir: "get_temporary_venv_path demo [] ''python3'' [] [] = ?dir"
    "get_temporary_venv_path demo_failing_create [] ''python3'' [] [] = ?dir"
    "get_temporary_venv_path demo_failing_install [] ''python3'' [] [] = ?dir"
    by (simp_all add: eval_path eval_variants)
  have some: "get_requirements_from_script (Requirement demo) ?headed = Inr (Some [])"
    "get_requirements_from_script (Requirement demo_failing_create) ?headed = Inr (Some [])"
    "get_requirements_from_script (Requirement demo_failing_install) ?headed = Inr (Some [])"
    by (simp_all add: parser r2)

  have prep_bare: "prepare_venv_cache demo (Venv demo bare_world ?dir None False) None True
      bare_world = Inl FileNotFoundError"
    by (simp add: eval_prepare eval_demo bare_world_def)
  have r5: "run_script demo ?headed [''x''] ''python3'' [] [] False True bare_world
       = Inl FileNotFoundError"
    using t [where c = demo and content = ?headed and w = bare_world and use_cache = True
        and py = "''python3''" and pip_args = "[]" and venv_args = "[]" and verb = False
        and app_args = "[''x'']" and requirements = "[]" and e = FileNotFoundError,
        THEN conjunct2, THEN conjunct2, THEN conjunct2, THEN conjunct2, unfolded Let_def,
        rule_format, OF some(1), THEN conjunct1] prep_bare
    unfolding dir by blast

  have prep_cached: "prepare_venv_cache demo (Venv demo cached_world ?dir None False) None True
      cached_world = Inr cached_world"
    by (simp add: eval_prepare eval_demo cached_world_def)
  have reused: "path_exists cached_world ?dir"
    by (simp add: path_exists_def cached_world_def)
  have cached_python: "python_path demo (Venv demo cached_world ?dir None False) = ?python"
    by (simp add: Venv_def eval_demo)
  have r6: "run_script demo ?headed [''x''] ''python3'' [] [] False True cached_world
       = Inr (Exec_app ([?python, ''-c'', ?headed] @ [''x'']), cached_world)"
    using t [where c = demo and content = ?headed and w = cached_world and use_cache = True
        and py = "''python3''" and pip_args = "[]" and venv_args = "[]" and verb = False
        and app_args = "[''x'']" and requirements = "[]" and w_prepared = cached_world,
        THEN conjunct2, THEN conjunct2, THEN conjunct2, THEN conjunct2, unfolded Let_def,
        rule_format, OF some(1), THEN conjunct2, THEN conjunct1] prep_cached reused
    unfolding dir cached_python by blast

  have prep: "prepare_venv_cache demo (Venv demo demo_world ?dir None False) None True demo_world
      = Inr demo_world"
    "prepare_venv_cache demo_failing_create
       (Venv demo_failing_create demo_world ?dir None False) None True demo_world = Inr demo_world"
    "prepare_venv_cache demo_failing_install
       (Venv demo_failing_install demo_world ?dir None False) None True demo_world = Inr demo_world"
    by (simp_all add: eval_prepare eval_variants)
  have fresh: "\<not> path_exists demo_world ?dir"
    by (simp add: path_exists_def eval_demo)
  have create_fails: "create_venv demo_failing_create
      (Venv demo_failing_create demo_world ?dir (Some ''python3'') False) [] [] demo_world
      = Inl (ExternalError ''venv failed'')"
    by (simp add: eval_variants)
  have r7: "run_script demo_failing_create ?headed [''x''] ''python3'' [] [] False True demo_world
       = Inl (ExternalError ''venv failed'')"
    using t [where c = demo_failing_create and content = ?headed and w = demo_world and use_cache = True
        and py = "''python3''" and pip_args = "[]" and venv_args = "[]" and verb = False
        and app_args = "[''x'']" and requirements = "[]" and w_prepared = demo_world and e = "ExternalError ''venv failed''",
        THEN conjunct2, THEN conjunct2, THEN conjunct2, THEN conjunct2, unfolded Let_def,
        rule_format, OF some(2), THEN conjunct2, THEN conjunct2, rule_format, THEN conjunct1] prep(2) fresh create_fails
    unfolding dir by blast

  have created: "create_venv demo (Venv demo demo_world ?dir (Some ''python3'') False) [] []
      demo_world = Inr ?w'"
    "create_venv demo_failing_install
      (Venv demo_failing_install demo_world ?dir (Some ''python3'') False) [] [] demo_world
      = Inr ?w'"
    by (simp_all add: Venv_def eval_variants)
  have install_fails: "install_unmanaged_packages demo_failing_install
      (Venv demo_failing_install demo_world ?dir (Some ''python3'') False) [] [] ?w'
      = Inl (ExternalError ''pip failed'')"
    by (simp add: eval_variants)
  have r8: "run_script demo_failing_install ?headed [''x''] ''python3'' [] [] False True demo_world
       = Inl (ExternalError ''pip failed'')"
    using t [where c = demo_failing_install and content = ?headed and w = demo_world and use_cache = True
        and py = "''python3''" and pip_args = "[]" and venv_args = "[]" and verb = False
        and app_args = "[''x'']" and requirements = "[]" and w_prepared = demo_world and w_created = ?w' and e = "ExternalError ''pip failed''",
        THEN conjunct2, THEN conjunct2, THEN conjunct2, THEN conjunct2, unfolded Let_def,
        rule_format, OF some(3), THEN conjunct2, THEN conjunct2, rule_format, THEN conjunct2,
        THEN conjunct1] prep(3) fresh created(2) install_fails
    unfolding dir by blast

  have installed: "install_unmanaged_packages demo
      (Venv demo demo_world ?dir (Some ''python3'') False) [] [] ?w' = Inr ?w'"
    by (simp add: eval_demo)
  have built_python: "python_path demo (Venv demo demo_world ?dir (Some ''python3'') False)
      = ?python"
    by (simp add: Venv_def eval_demo)
  have r9: "run_script demo ?headed [''x''] ''python3'' [] [] False True demo_world
       = Inr (Exec_app ([?python, ''-c'', ?headed] @ [''x'']), ?w')"
    using t [where c = demo and content = ?headed and w = demo_world and use_cache = True
        and py = "''python3''" and pip_args = "[]" and venv_args = "[]" and verb = False
        and app_args = "[''x'']" and requirements = "[]" and w_prepared = demo_world and w_created = ?w' and w_installed = ?w',
        THEN conjunct2, THEN conjunct2, THEN conjunct2, THEN conjunct2, unfolded Let_def,
        rule_format, OF some(1), THEN conjunct2, THEN conjunct2, rule_format, THEN conjunct2,
        THEN conjunct2] prep(1) fresh created(1) installed
    unfolding dir built_python by blast
  from r1 r2 r3 r4 r5 r6 r7 r8 r9 show ?thesis by simp
qed

section \<open>The advisory version check on concrete inputs\<close>

lemma get_latest_version_None:
  "get_latest_version c package_name w = Inr (latest_version, w') \<Longrightarrow> latest_version = None"
  by (auto simp: get_latest_version_def Let_def split: sum.splits option.splits if_splits)

lemma check_version_never_returns:
  "\<exists>e. check_version c app w = Inl e"
proof (cases "path_exists w (joinpath (package_venv c app) ''pipx_version_check'')")
  case False
  then have "st_ctime w (joinpath (package_venv c app) ''pipx_version_check'') = Inl FileNotFoundError"
    by (simp add: path_exists_def st_ctime_def)
  with False show ?thesis
    by (simp add: check_version_def is_version_check_expired_def Let_def)
next
  case True
  show ?thesis
  proof (cases "open_w (joinpath (package_venv c app) ''pipx_version_check'') w")
    case (Inl e)
    with True show ?thesis by (simp add: check_version_def Let_def)
  next
    case (Inr w1)
    show ?thesis
    proof (cases "get_latest_version c app w1")
      case (Inl e)
      with True Inr show ?thesis by (simp add: check_version_def Let_def)
    next
      case inr: (Inr r)
      obtain latest w2 where r: "r = (latest, w2)" by (cases r)
      with inr have "latest = None" by (auto dest: get_latest_version_None)
      with True Inr inr r show ?thesis
        by (simp add: check_version_def Let_def parse_def split: option.splits)
    qed
  qed
qed

text \<open>
  C1. The claim has the check attempted exactly when the marker is absent or older
  than 24 hours, and nothing done when the marker exists and is younger. The code
  tests \<open>exists() or _is_version_check_expired(...)\<close>: with no marker it reads the
  status of the missing file and raises \<open>FileNotFoundError\<close> (no marker is created, no
  check is made); with a marker 100 seconds old, which \<open>_is_version_check_expired\<close>
  itself does not count as expired, it goes on to the check, and the call ends in
  \<open>TypeError\<close> although the oracle names a newer version.
\<close>

theorem version_check_gate_is_inverted:
  "check_version demo_online ''black'' demo_world = Inl FileNotFoundError
   \<and> check_version demo_online ''black'' marked_world = Inl TypeError
   \<and> path_exists marked_world (joinpath (package_venv demo_online ''black'') ''pipx_version_check'')
   \<and> is_version_check_expired marked_world (package_venv demo_online ''black'') = Inr False
   \<and> \<not> path_exists demo_world (joinpath (package_venv demo_online ''black'') ''pipx_version_check'')"
  by (simp add: check_version_def is_version_check_expired_def package_venv_def
      get_latest_version_def parse_def Venv_def Let_def split_def split_from.simps
      eval_fs eval_strings eval_demo demo_online_def marked_world_def)

text \<open>
  C2. The claim has every failure of the check swallowed. With the marker present and
  the oracle unreachable, \<open>_get_latest_version\<close> prints its diagnostic and returns
  \<open>None\<close>; \<open>check_version\<close> hands \<open>None\<close> to \<open>version.parse\<close>, the \<open>TypeError\<close> leaves
  \<open>check_version\<close> and \<open>run\<close> ends with it before any script or package is run. An
  application without installed metadata ends in \<open>KeyError\<close> in the same way.
\<close>

theorem unreachable_oracle_fails_the_run:
  "get_latest_version demo ''black'' marked_world
     = Inr (None, print ''Error during request: Connection refused'' marked_world)
   \<and> check_version demo ''black'' marked_world = Inl TypeError
   \<and> check_version demo ''flake8'' marked_world = Inl KeyError
   \<and> run demo ''black'' None False [] ''python3'' [] [] False False True marked_world
       = Inl TypeError"
  by (simp add: run_def check_version_def is_version_check_expired_def package_venv_def
      get_latest_version_def parse_def Venv_def Let_def
      eval_fs eval_strings eval_demo marked_world_def)

text \<open>
  C9. The claim has the marker inside the application's own directory, so that two
  applications never share one. The directory that \<open>check_version\<close> computes is
  \<open>PIPX_LOCAL_VENVS\<close> joined with the literal name \<open>{app}\<close>: it does not depend on the
  application, and the marker files of \<open>black\<close> and \<open>flake8\<close> are the same file.
\<close>

theorem version_check_directory_ignores_app:
  "package_venv c app = joinpath (PIPX_LOCAL_VENVS c) ''{app}''
   \<and> joinpath (package_venv c ''black'') ''pipx_version_check''
     = joinpath (package_venv c ''flake8'') ''pipx_version_check''"
  by (simp add: package_venv_def)

section \<open>Marking a fresh environment for expiration\<close>

text \<open>
  The package path: when caching is disabled, every run of \<open>_download_and_run\<close> that
  reaches execution has written the expiration marker into the environment's
  directory.
\<close>

lemma touch_Inr_exists:
  "touch p w = Inr w' \<Longrightarrow> path_exists w' p"
  by (auto simp: touch_def path_exists_def update_conv' split: if_splits)

lemma download_and_run_marks_expired:
  assumes "\<not> use_cache"
    and "download_and_run c venv_dir package_or_url app app_filename app_args py pip_args venv_args
           use_cache verb w = Inr (out, w')"
  shows "path_exists w' (joinpath venv_dir VENV_EXPIRED_FILENAME)"
  using assms
  by (auto simp: download_and_run_def Let_def split: sum.splits if_splits prod.splits
      dest: touch_Inr_exists)

text \<open>
  C3. The claim has the marker written before execution on the script path as well.
  \<open>run_script\<close> never writes it: for a script that requires \<open>six\<close>, run with caching
  disabled on an empty cache, the environment is built (its directory did not exist
  before and exists at execution) and the script is executed in it, and the
  directory holds no \<open>pipx_expired_venv\<close> file.
\<close>

theorem run_script_without_cache_writes_no_marker:
  "\<exists>w'. run_script demo (''# Requirements:\<newline># six\<newline>import six'') [] ''python3'' [] [] False False
           demo_world
         = Inr (Exec_app [''home/cache/0000000000fffff/bin/python'', ''-c'',
                          ''# Requirements:\<newline># six\<newline>import six''], w')
       \<and> get_temporary_venv_path demo [''six''] ''python3'' [] []
          = [''home'', ''cache'', ''0000000000fffff'']
       \<and> \<not> path_exists demo_world [''home'', ''cache'', ''0000000000fffff'']
       \<and> path_exists w' [''home'', ''cache'', ''0000000000fffff'']
       \<and> \<not> path_exists w' (joinpath [''home'', ''cache'', ''0000000000fffff''] VENV_EXPIRED_FILENAME)"
proof -
  let ?script = "''# Requirements:\<newline># six\<newline>import six''"
  let ?dir = "[''home'', ''cache'', ''0000000000fffff'']"
  let ?w' = "demo_world\<lparr>files := files demo_world @ [(?dir, 1000)]\<rparr>"
  have parser: "Requirement demo = demo_parser"
    by (simp add: demo_def)
  have reqs: "get_requirements_from_script demo_parser ?script = Inr (Some [''six''])"
    by (simp add: get_requirements_from_script_def requirements_from_lines_def Let_def
        eval_strings demo_parser_def)
  have dir: "get_temporary_venv_path demo [''six''] ''python3'' [] [] = ?dir"
    by (simp add: get_temporary_venv_path_def Let_def sha256_def update_def hexdigest_def
        encode_def utf8_def joinpath_def eval_demo)
  have prep: "prepare_venv_cache demo (Venv demo demo_world ?dir None False) None False demo_world
      = Inr demo_world"
    by (simp add: prepare_venv_cache_def remove_all_expired_venvs_def
        is_temporary_venv_expired_def VENV_EXPIRED_FILENAME_def Venv_def eval_fs eval_demo)
  have fresh: "\<not> path_exists demo_world ?dir"
    by (simp add: path_exists_def eval_demo)
  have created: "create_venv demo (Venv demo demo_world ?dir (Some ''python3'') False) [] []
      demo_world = Inr ?w'"
    by (simp add: Venv_def eval_demo)
  have installed: "install_unmanaged_packages demo
      (Venv demo demo_world ?dir (Some ''python3'') False) [''six''] [] ?w' = Inr ?w'"
    by (simp add: eval_demo)
  have interpreter: "python_path demo (Venv demo demo_world ?dir (Some ''python3'') False)
      = ''home/cache/0000000000fffff/bin/python''"
    by (simp add: Venv_def eval_demo)
  have ran: "run_script demo ?script [] ''python3'' [] [] False False demo_world
       = Inr (Exec_app [''home/cache/0000000000fffff/bin/python'', ''-c'', ?script], ?w')"
    by (simp add: run_script_def parser reqs dir Let_def prep fresh created installed interpreter)
  have after: "path_exists ?w' ?dir"
    "\<not> path_exists ?w' (joinpath ?dir VENV_EXPIRED_FILENAME)"
    by (simp_all add: path_exists_def joinpath_def VENV_EXPIRED_FILENAME_def eval_demo)
  from ran dir fresh after show ?thesis by blast
qed

end
